theory Spec2Isabelle
  imports Complex_Main "HOL-Library.Sublist"
begin

section \<open>Python values\<close>

text \<open>
  The values that travel through the processor runtime: messages, templates, resolved
  inputs and configurations, outputs and session mappings. A dictionary keeps its
  insertion order (an association list). \<open>PSchema\<close> is an instance of a subclass of
  \<open>ApiProcessorSchema\<close> (the input, configuration and output classes of a processor) with
  its fields, \<open>PModel\<close> an instance of any other pydantic \<open>BaseModel\<close>.
\<close>

datatype pyval =
    PNone
  | PBool bool
  | PInt int
  | PStr string
  | PList "pyval list"
  | PDict "(string \<times> pyval) list"
  | PModel "(string \<times> pyval) list"
  | PSchema "(string \<times> pyval) list"

text \<open>Python truth value testing, as \<open>if message\<close>, \<open>if output\<close> and \<open>x and y\<close> use it.\<close>

fun truthy :: "pyval \<Rightarrow> bool" where
  "truthy PNone = False"
| "truthy (PBool b) = b"
| "truthy (PInt i) = (i \<noteq> 0)"
| "truthy (PStr s) = (s \<noteq> [])"
| "truthy (PList xs) = (xs \<noteq> [])"
| "truthy (PDict kvs) = (kvs \<noteq> [])"
| "truthy (PModel fs) = True"
| "truthy (PSchema fs) = True"

text \<open>
  \<open>isinstance(x, BaseModel)\<close>, \<open>isinstance(x, ApiProcessorSchema)\<close> and
  \<open>isinstance(x, dict)\<close>.
\<close>

fun isinstance_BaseModel :: "pyval \<Rightarrow> bool" where
  "isinstance_BaseModel (PModel fs) = True"
| "isinstance_BaseModel (PSchema fs) = True"
| "isinstance_BaseModel v = False"

fun isinstance_ApiProcessorSchema :: "pyval \<Rightarrow> bool" where
  "isinstance_ApiProcessorSchema (PSchema fs) = True"
| "isinstance_ApiProcessorSchema v = False"

fun isinstance_dict :: "pyval \<Rightarrow> bool" where
  "isinstance_dict (PDict kvs) = True"
| "isinstance_dict v = False"

text \<open>\<open>model_dump()\<close>: the instance as a dictionary, nested instances dumped too.\<close>

primrec model_dump :: "pyval \<Rightarrow> pyval" where
  "model_dump PNone = PNone"
| "model_dump (PBool b) = PBool b"
| "model_dump (PInt i) = PInt i"
| "model_dump (PStr s) = PStr s"
| "model_dump (PList xs) = PList (map model_dump xs)"
| "model_dump (PDict kvs) = PDict (map (map_prod (\<lambda>k. k) model_dump) kvs)"
| "model_dump (PModel fs) = PDict (map (map_prod (\<lambda>k. k) model_dump) fs)"
| "model_dump (PSchema fs) = PDict (map (map_prod (\<lambda>k. k) model_dump) fs)"

text \<open>
  An instance of \<open>Exception\<close>, which an \<open>except Exception\<close> clause catches, with the
  text that \<open>str(e)\<close> gives.
\<close>

datatype exc = Exception string

fun str_exc :: "exc \<Rightarrow> string" where
  "str_exc (Exception m) = m"

text \<open>
  What a \<open>raise\<close> can carry: an \<open>Exception\<close>, or an instance of \<open>BaseException\<close>
  that is no \<open>Exception\<close> (\<open>KeyboardInterrupt\<close>, \<open>SystemExit\<close>,
  \<open>asyncio.CancelledError\<close>), named by its class, which \<open>except Exception\<close> lets pass.
\<close>

datatype base_exception = OfException exc | Other string

section \<open>The browser instructions (static\_web\_browser.py)\<close>

text \<open>
  \<open>BrowserInstructionType\<close> is a string-valued enumeration; \<open>enum_value\<close> gives the
  declared value of each member.
\<close>

datatype BrowserInstructionType =
    Ins_CLICK | Ins_TYPE | Ins_WAIT | Ins_GOTO | Ins_COPY | Ins_TERMINATE | Ins_ENTER
  | Ins_SCROLLX | Ins_SCROLLY

fun enum_value :: "BrowserInstructionType \<Rightarrow> string" where
  "enum_value Ins_CLICK = ''Click''"
| "enum_value Ins_TYPE = ''Type''"
| "enum_value Ins_WAIT = ''Wait''"
| "enum_value Ins_GOTO = ''Goto''"
| "enum_value Ins_COPY = ''Copy''"
| "enum_value Ins_TERMINATE = ''Terminate''"
| "enum_value Ins_ENTER = ''Enter''"
| "enum_value Ins_SCROLLX = ''Scrollx''"
| "enum_value Ins_SCROLLY = ''Scrolly''"

definition BrowserInstructionType_members :: "BrowserInstructionType list" where
  "BrowserInstructionType_members =
     [Ins_CLICK, Ins_TYPE, Ins_WAIT, Ins_GOTO, Ins_COPY, Ins_TERMINATE, Ins_ENTER,
      Ins_SCROLLX, Ins_SCROLLY]"

text \<open>
  Validation of a field annotated with the enumeration, given a string: the member whose
  declared value is that string, and a validation error (\<open>None\<close>) when there is none.
  The lookup is by exact value, as \<open>BrowserInstructionType(v)\<close> is.
\<close>

definition BrowserInstructionType_of_value :: "string \<Rightarrow> BrowserInstructionType option" where
  "BrowserInstructionType_of_value v =
     List.find (\<lambda>m. enum_value m = v) BrowserInstructionType_members"

text \<open>\<open>str.lower()\<close> and \<open>str.capitalize()\<close> on ASCII text.\<close>

definition ascii_uppercase :: string where
  "ascii_uppercase = ''ABCDEFGHIJKLMNOPQRSTUVWXYZ''"

definition ascii_lowercase :: string where
  "ascii_lowercase = ''abcdefghijklmnopqrstuvwxyz''"

definition lower_char :: "char \<Rightarrow> char" where
  "lower_char c =
     (case map_of (zip ascii_uppercase ascii_lowercase) c of None \<Rightarrow> c | Some l \<Rightarrow> l)"

definition upper_char :: "char \<Rightarrow> char" where
  "upper_char c =
     (case map_of (zip ascii_lowercase ascii_uppercase) c of None \<Rightarrow> c | Some u \<Rightarrow> u)"

definition lower :: "string \<Rightarrow> string" where
  "lower s = map lower_char s"

fun capitalize :: "string \<Rightarrow> string" where
  "capitalize [] = []"
| "capitalize (c # cs) = upper_char c # map lower_char cs"

text \<open>
  The field validator of \<open>BrowserInstruction.type\<close>:
  \<^verbatim>\<open>
  @field_validator("type")
  def validate_type(cls, v):
      return v.lower().capitalize()
  \<close>
  It is declared without a mode, so it is an after-validator: it receives the member that
  the validation of the annotated type \<open>BrowserInstructionType\<close> has produced, and the
  string methods act on the member's value.
\<close>

definition validate_type :: "BrowserInstructionType \<Rightarrow> string" where
  "validate_type v = capitalize (lower (enum_value v))"

text \<open>
  Validation of the \<open>type\<close> field of a \<open>BrowserInstruction\<close> from a string: the
  enumeration first, the field validator on its result. \<open>None\<close> is the validation error.
\<close>

definition BrowserInstruction_type_field :: "string \<Rightarrow> string option" where
  "BrowserInstruction_type_field s =
     (case BrowserInstructionType_of_value s of
        None \<Rightarrow> None
      | Some v \<Rightarrow> Some (validate_type v))"

text \<open>A validated instruction: \<open>type\<close> holds the string the validator returned.\<close>

record BrowserInstruction =
  instruction_type :: string
  instruction_selector :: "string option"
  instruction_data :: "string option"

text \<open>The command set of the remote browser (\<open>langrocks\<close>), as the translation names it.\<close>

datatype WebBrowserCommandType =
    Cmd_GOTO | Cmd_CLICK | Cmd_WAIT | Cmd_COPY | Cmd_SCROLL_X | Cmd_SCROLL_Y
  | Cmd_TERMINATE | Cmd_ENTER | Cmd_TYPE

text \<open>
  \<open>command_type\<close> starts as the instruction's own type string and is replaced by a
  command type when a branch of the chain matches.
\<close>

datatype command_type_value = CommandType WebBrowserCommandType | Untranslated string

record WebBrowserCommand =
  command_type :: command_type_value
  command_data :: string
  command_selector :: string

text \<open>\<open>x or ""\<close> on an optional string.\<close>

fun or_empty :: "string option \<Rightarrow> string" where
  "or_empty None = ''''"
| "or_empty (Some s) = (if s = [] then '''' else s)"

definition web_browser_instruction_to_command :: "BrowserInstruction \<Rightarrow> WebBrowserCommand" where
  "web_browser_instruction_to_command instruction =
     (let t = instruction_type instruction;
          instruction_type' =
            (if t = enum_value Ins_GOTO then CommandType Cmd_GOTO
             else if t = enum_value Ins_CLICK then CommandType Cmd_CLICK
             else if t = enum_value Ins_WAIT then CommandType Cmd_WAIT
             else if t = enum_value Ins_COPY then CommandType Cmd_COPY
             else if t = enum_value Ins_SCROLLX then CommandType Cmd_SCROLL_X
             else if t = enum_value Ins_SCROLLY then CommandType Cmd_SCROLL_Y
             else if t = enum_value Ins_TERMINATE then CommandType Cmd_TERMINATE
             else if t = enum_value Ins_ENTER then CommandType Cmd_ENTER
             else if t = enum_value Ins_TYPE then CommandType Cmd_TYPE
             else Untranslated t)
      in \<lparr> command_type = instruction_type',
           command_data = or_empty (instruction_data instruction),
           command_selector = or_empty (instruction_selector instruction) \<rparr>)"

text \<open>
  The correspondence the specification names: each instruction type and the command of
  the same name.
\<close>

fun corresponding_command :: "BrowserInstructionType \<Rightarrow> WebBrowserCommandType" where
  "corresponding_command Ins_CLICK = Cmd_CLICK"
| "corresponding_command Ins_TYPE = Cmd_TYPE"
| "corresponding_command Ins_WAIT = Cmd_WAIT"
| "corresponding_command Ins_GOTO = Cmd_GOTO"
| "corresponding_command Ins_COPY = Cmd_COPY"
| "corresponding_command Ins_SCROLLX = Cmd_SCROLL_X"
| "corresponding_command Ins_SCROLLY = Cmd_SCROLL_Y"
| "corresponding_command Ins_ENTER = Cmd_ENTER"
| "corresponding_command Ins_TERMINATE = Cmd_TERMINATE"

subsection \<open>The input class of the browser processor\<close>

text \<open>
  \<open>StaticWebBrowserInput(**kwargs)\<close>, for keyword arguments as a message carries them:
  \<open>url\<close> is a required string and \<open>instructions\<close> a required list, whose items are
  dictionaries from which \<open>BrowserInstruction\<close> is built: \<open>type\<close> is required and
  validated as above, \<open>selector\<close> and \<open>data\<close> are optional strings with default
  \<open>None\<close>. Keys that name no field are ignored (pydantic's default). What is not a
  dictionary cannot stand after \<open>**\<close>. The two exceptions stand for the \<open>TypeError\<close> of
  the call and for pydantic's \<open>ValidationError\<close>, whose reports are not reproduced.
\<close>

definition not_a_mapping :: exc where
  "not_a_mapping = Exception ''argument after ** must be a mapping''"

definition validation_error :: exc where
  "validation_error = Exception ''validation error for StaticWebBrowserInput''"

fun optional_str :: "pyval option \<Rightarrow> pyval option" where
  "optional_str None = Some PNone"
| "optional_str (Some PNone) = Some PNone"
| "optional_str (Some (PStr s)) = Some (PStr s)"
| "optional_str (Some v) = None"

fun required_type :: "pyval option \<Rightarrow> pyval option" where
  "required_type (Some (PStr t)) = map_option PStr (BrowserInstruction_type_field t)"
| "required_type v = None"

definition BrowserInstruction_of :: "pyval \<Rightarrow> pyval option" where
  "BrowserInstruction_of item =
     (case item of
        PDict kvs \<Rightarrow>
          (case required_type (map_of kvs ''type'') of
             None \<Rightarrow> None
           | Some t \<Rightarrow>
               (case optional_str (map_of kvs ''selector'') of
                  None \<Rightarrow> None
                | Some selector \<Rightarrow>
                    (case optional_str (map_of kvs ''data'') of
                       None \<Rightarrow> None
                     | Some d \<Rightarrow>
                         Some (PModel [(''type'', t), (''selector'', selector), (''data'', d)]))))
      | _ \<Rightarrow> None)"

definition StaticWebBrowserInput :: "pyval \<Rightarrow> exc + pyval" where
  "StaticWebBrowserInput kwargs =
     (case kwargs of
        PDict kvs \<Rightarrow>
          (case map_of kvs ''url'' of
             Some (PStr url) \<Rightarrow>
               (case map_of kvs ''instructions'' of
                  Some (PList items) \<Rightarrow>
                    (case those (map BrowserInstruction_of items) of
                       None \<Rightarrow> Inl validation_error
                     | Some instructions \<Rightarrow>
                         Inr (PSchema [(''url'', PStr url),
                                       (''instructions'', PList instructions)]))
                | _ \<Rightarrow> Inl validation_error)
           | _ \<Rightarrow> Inl validation_error)
      | _ \<Rightarrow> Inl not_a_mapping)"

section \<open>The processor runtime (api\_processor\_interface.py)\<close>

subsection \<open>Data\<close>

text \<open>
  Modelled from the spec: \<open>BookKeepingData\<close> (\<open>llmstack.play.actor\<close>) is not among the
  sources. The specification gives the record as resolved input, resolved config,
  produced output, session-data delta, a timestamp, a disable-history flag and usage
  data; \<open>usage_data\<close> is empty until \<open>input\<close> assigns it. An instance of the class is
  true in a condition. Whether the class accepts the arguments it is built from is a
  collaborator of the runtime, below.
\<close>

record BookKeepingData =
  bk_input :: pyval
  bk_config :: pyval
  bk_output :: pyval
  bk_session_data :: pyval
  bk_timestamp :: real
  bk_disable_history :: bool
  bk_usage_data :: pyval

record request_user =
  email :: string

text \<open>
  The fields of the actor that \<open>input\<close>, \<open>__init__\<close> and \<open>_upload_asset_from_url\<close>
  read or assign. The resolved and the template forms of input and config are
  references to objects: \<open>objects\<close> is the store of the objects by reference, and
  \<open>next_free\<close> the first reference not yet given out. Two fields with the same reference
  are the same object, and a write to it shows through both. \<open>self_state\<close> stands for
  whatever further attributes a concrete processor keeps on itself.
\<close>

record 'p actor =
  self_config :: nat
  self_input :: nat
  self_config_template :: nat
  self_input_template :: nat
  self_session_id :: string
  self_request_user :: "request_user option"
  self_app_uuid :: "string option"
  self_input_fields :: "pyval list"
  self_is_tool :: bool
  self_session_enabled :: bool
  self_id :: string
  self_state :: 'p
  objects :: "nat \<Rightarrow> pyval"
  next_free :: nat

text \<open>A new object with the value \<open>v\<close>; its reference is \<open>next_free\<close> of the actor before.\<close>

definition new_object :: "pyval \<Rightarrow> 'p actor \<Rightarrow> 'p actor" where
  "new_object v self =
     self\<lparr>objects := (objects self)(next_free self := v), next_free := Suc (next_free self)\<rparr>"

text \<open>
  What \<open>input\<close> calls outside itself, one entry for each call that is made, whether it
  returns or raises, in the order of the calls:
  the hydrator, the input class, the processor's \<open>process\<close> (with the values of the
  resolved input and config it is called on), the writes \<open>process\<close> makes on the output
  stream, the stream's \<open>error\<close> and \<open>bookkeep\<close>, the session store's save, and
  \<open>on_stop\<close>.
\<close>

datatype event =
    Hydrate pyval pyval
  | Construct pyval
  | Execute pyval pyval
  | Write pyval
  | Error exc
  | Save string string pyval
  | Bookkeep "BookKeepingData option"
  | OnStop

text \<open>
  The concrete processor and the collaborators of the runtime. \<open>ApiProcessorInterface\<close>
  is abstract: \<open>process\<close> and the classes come from the subclass, and the hooks
  \<open>get_bookkeeping_data\<close>, \<open>session_data_to_persist\<close>, \<open>usage_data\<close>,
  \<open>disable_history\<close> and \<open>process_session_data\<close> may be overridden. Every one of them
  is a call that may raise.
  \<^item> \<open>get_input_class\<close> and \<open>get_configuration_class\<close> are the calls
    \<open>self._get_input_class()(**kwargs)\<close> and \<open>self._get_configuration_class()(**kwargs)\<close>
    as a whole: given what stands after \<open>**\<close>, the value of the new instance, or the
    exception of the unpacking or of the schema validation.
  \<^item> Modelled from the spec: \<open>hydrate_input\<close> (\<open>llmstack.common.utils.liquid\<close>) is not
    among the sources; the specification gives it as a pure function of the template and
    the runtime data, which may fail. Its result is a new object.
  \<^item> \<open>process\<close> has \<open>self\<close>: it may assign any field of the actor and write to any
    object. It gives the partial outputs it wrote to the stream, what it returned or
    raised, and the actor as it left it.
  \<^item> \<open>process_session_data\<close> seeds what the processor keeps of its own from the
    session data loaded at construction.
  \<^item> The other hooks are taken to read the actor and to assign nothing, as the ones
    that \<open>ApiProcessorInterface\<close> declares do.
  \<^item> \<open>validate_BookKeepingData\<close> is the validation of the arguments by the class
    \<open>BookKeepingData\<close>: \<open>None\<close> when it accepts them.
  \<^item> \<open>get_app_session_data\<close> and \<open>save_app_session_data\<close>
    (\<open>llmstack.apps.app_session_utils\<close>) are the session store.
  \<^item> \<open>stream_error\<close> and \<open>stream_bookkeep\<close> are \<open>self._output_stream.error\<close> and
    \<open>self._output_stream.bookkeep\<close>, and \<open>on_stop\<close> is the actor's \<open>on_stop\<close>
    (\<open>llmstack.play.actor\<close>): \<open>None\<close> when the call returns, otherwise what it raises.
  \<^item> \<open>validate\<close> and \<open>process_with_argument\<close> are the two calls of
    \<open>validate_and_process\<close>, \<open>self.validate(processed_input)\<close> and
    \<open>self.process(processed_input)\<close>. Their argument is the builtin \<open>input\<close>, the only
    binding of that name in the method. \<open>process\<close> as the class declares it takes no
    argument, and the second call then raises a \<open>TypeError\<close>.
\<close>

record 'p processor =
  get_input_class :: "pyval \<Rightarrow> exc + pyval"
  get_configuration_class :: "pyval \<Rightarrow> exc + pyval"
  hydrate_input :: "pyval \<Rightarrow> pyval \<Rightarrow> exc + pyval"
  process :: "'p actor \<Rightarrow> pyval list \<times> (base_exception + pyval) \<times> 'p actor"
  get_bookkeeping_data :: "'p actor \<Rightarrow> exc + BookKeepingData option"
  session_data_to_persist :: "'p actor \<Rightarrow> exc + pyval"
  usage_data :: "'p actor \<Rightarrow> exc + pyval"
  disable_history :: "'p actor \<Rightarrow> exc + bool"
  process_session_data :: "'p \<Rightarrow> pyval \<Rightarrow> exc + 'p"
  validate_BookKeepingData :: "BookKeepingData \<Rightarrow> exc option"
  get_app_session_data :: "string \<Rightarrow> string \<Rightarrow> exc + pyval"
  save_app_session_data :: "string \<Rightarrow> string \<Rightarrow> pyval \<Rightarrow> exc option"
  stream_error :: "exc \<Rightarrow> exc option"
  stream_bookkeep :: "BookKeepingData option \<Rightarrow> exc option"
  on_stop :: "'p actor \<Rightarrow> exc option"
  validate :: "'p actor \<Rightarrow> exc option"
  process_with_argument :: "'p actor \<Rightarrow> exc + pyval"

text \<open>
  A run of statements: what was raised and left it (\<open>None\<close> when it ran to its end),
  the actor as the run left it, and the calls it made.
\<close>

type_synonym 'p run = "base_exception option \<times> 'p actor \<times> event list"

definition raised :: "'p run \<Rightarrow> base_exception option" where
  "raised r = fst r"

definition actor_after :: "'p run \<Rightarrow> 'p actor" where
  "actor_after r = fst (snd r)"

definition calls :: "'p run \<Rightarrow> event list" where
  "calls r = snd (snd r)"

text \<open>One statement after another: the second runs only when the first did not raise.\<close>

definition and_then :: "'p run \<Rightarrow> ('p actor \<Rightarrow> 'p run) \<Rightarrow> 'p run" where
  "and_then r f =
     (case r of
        (Some e, self, ev) \<Rightarrow> (Some e, self, ev)
      | (None, self, ev) \<Rightarrow> (case f self of (x, self', ev') \<Rightarrow> (x, self', ev @ ev')))"

subsection \<open>Construction\<close>

record 'p init_args =
  arg_input :: pyval
  arg_config :: pyval
  arg_session_id :: string
  arg_request_user :: "request_user option"
  arg_app_uuid :: "string option"
  arg_input_fields :: "pyval list"
  arg_id :: string
  arg_is_tool :: bool
  arg_session_enabled :: bool
  arg_state :: 'p


subsection \<open>One invocation\<close>

text \<open>\<open>self._config = hydrate_input(self._config_template, message)\<close>\<close>

definition assign_config_hydrated :: "'p processor \<Rightarrow> pyval \<Rightarrow> 'p actor \<Rightarrow> 'p run" where
  "assign_config_hydrated P message self =
     (let template = objects self (self_config_template self)
      in case hydrate_input P template message of
           Inl e \<Rightarrow> (Some (OfException e), self, [Hydrate template message])
         | Inr c \<Rightarrow>
             (None, (new_object c self)\<lparr>self_config := next_free self\<rparr>,
              [Hydrate template message]))"

text \<open>\<open>self._input = self._get_input_class()(**kwargs)\<close>\<close>

definition assign_input_constructed :: "'p processor \<Rightarrow> pyval \<Rightarrow> 'p actor \<Rightarrow> 'p run" where
  "assign_input_constructed P kwargs self =
     (case get_input_class P kwargs of
        Inl e \<Rightarrow> (Some (OfException e), self, [Construct kwargs])
      | Inr i \<Rightarrow> (None, (new_object i self)\<lparr>self_input := next_free self\<rparr>, [Construct kwargs]))"

text \<open>
  Tool mode with declared input fields: the input template is hydrated, dumped when
  it is a model instance, and the input class is built from that.
\<close>

definition assign_input_hydrated_constructed ::
  "'p processor \<Rightarrow> pyval \<Rightarrow> 'p actor \<Rightarrow> 'p run" where
  "assign_input_hydrated_constructed P message self =
     (let template = objects self (self_input_template self)
      in case hydrate_input P template message of
           Inl e \<Rightarrow> (Some (OfException e), self, [Hydrate template message])
         | Inr hydrated_input \<Rightarrow>
             and_then (None, self, [Hydrate template message])
               (assign_input_constructed P
                  (if isinstance_BaseModel hydrated_input then model_dump hydrated_input
                   else hydrated_input)))"

text \<open>
  Normal mode:
  \<open>self._input = hydrate_input(self._input_template, message) if message else self._input_template\<close>.
  Without a message the resolved input becomes the template object itself.
\<close>

definition assign_input_normal :: "'p processor \<Rightarrow> pyval \<Rightarrow> 'p actor \<Rightarrow> 'p run" where
  "assign_input_normal P message self =
     (if truthy message then
        (let template = objects self (self_input_template self)
         in case hydrate_input P template message of
              Inl e \<Rightarrow> (Some (OfException e), self, [Hydrate template message])
            | Inr i \<Rightarrow>
                (None, (new_object i self)\<lparr>self_input := next_free self\<rparr>,
                 [Hydrate template message]))
      else (None, self\<lparr>self_input := self_input_template self\<rparr>, []))"

text \<open>
  \<open>self._config = hydrate_input(self._config_template, message) if self._config and message
  else self._config_template\<close>
\<close>

definition assign_config_normal :: "'p processor \<Rightarrow> pyval \<Rightarrow> 'p actor \<Rightarrow> 'p run" where
  "assign_config_normal P message self =
     (if truthy (objects self (self_config self)) \<and> truthy message
      then assign_config_hydrated P message self
      else (None, self\<lparr>self_config := self_config_template self\<rparr>, []))"

text \<open>The three modes of resolving input and config, the first statements of the \<open>try\<close>.\<close>

definition resolve :: "'p processor \<Rightarrow> 'p actor \<Rightarrow> pyval \<Rightarrow> 'p run" where
  "resolve P self message =
     (if self_is_tool self \<and> length (self_input_fields self) = 0 then
        and_then (assign_input_constructed P message self) (assign_config_hydrated P message)
      else if self_is_tool self then
        and_then (assign_input_hydrated_constructed P message self)
          (assign_config_hydrated P message)
      else
        and_then (assign_input_normal P message self) (assign_config_normal P message))"

text \<open>
  The \<open>try\<close> block: resolution, then \<open>output = self.process()\<close>. The result is the
  output, or what was raised.
\<close>

definition try_block ::
  "'p processor \<Rightarrow> 'p actor \<Rightarrow> pyval \<Rightarrow> (base_exception + pyval) \<times> 'p actor \<times> event list" where
  "try_block P self message =
     (case resolve P self message of
        (Some e, self1, ev) \<Rightarrow> (Inl e, self1, ev)
      | (None, self1, ev) \<Rightarrow>
          (case process P self1 of
             (writes, r, self2) \<Rightarrow>
               (r, self2,
                ev @ [Execute (objects self1 (self_input self1))
                              (objects self1 (self_config self1))]
                   @ map Write writes)))"

text \<open>The output that the \<open>except\<close> clause builds from the exception.\<close>

definition error_output :: "exc \<Rightarrow> pyval" where
  "error_output e =
     PDict [(''errors'', PList [PStr (str_exc e)]),
            (''raw_response'',
               PDict [(''text'', PStr (str_exc e)), (''status_code'', PInt 400)])]"

text \<open>\<open>x.model_dump() if x and isinstance(x, BaseModel) else x\<close>\<close>

definition dump_if_model :: "pyval \<Rightarrow> pyval" where
  "dump_if_model x = (if truthy x \<and> isinstance_BaseModel x then model_dump x else x)"

text \<open>
  The record \<open>input\<close> builds when the processor supplies none: the dumped input and
  config, the output (dumped when it is a model instance, \<open>{}\<close> when it is false), the
  session data of the hook when the actor is session-enabled and \<open>{}\<close> otherwise, the
  reading \<open>now\<close> of the clock and the flag of the hook. The hooks are called in the
  order of the keyword arguments, and the class validates what it is given.
\<close>

definition default_bookkeeping_data ::
  "'p processor \<Rightarrow> real \<Rightarrow> 'p actor \<Rightarrow> pyval \<Rightarrow> exc + BookKeepingData" where
  "default_bookkeeping_data P now self output =
     (let input_dict = dump_if_model (objects self (self_input self));
          config_dict = dump_if_model (objects self (self_config self));
          output_dict =
            (if truthy output
             then (if isinstance_BaseModel output then model_dump output else output)
             else PDict [])
      in case (if self_session_enabled self then session_data_to_persist P self
               else Inr (PDict [])) of
           Inl e \<Rightarrow> Inl e
         | Inr session_data \<Rightarrow>
             (case disable_history P self of
                Inl e \<Rightarrow> Inl e
              | Inr flag \<Rightarrow>
                  (let b = \<lparr> bk_input = input_dict,
                             bk_config = config_dict,
                             bk_output = output_dict,
                             bk_session_data = session_data,
                             bk_timestamp = now,
                             bk_disable_history = flag,
                             bk_usage_data = PDict [] \<rparr>
                   in case validate_BookKeepingData P b of
                        Some e \<Rightarrow> Inl e
                      | None \<Rightarrow> Inr b)))"

text \<open>
  \<open>bookkeeping_data = self.get_bookkeeping_data()\<close>, replaced by the default record
  when it is false (\<open>if not bookkeeping_data\<close>).
\<close>

definition bookkeeping_data_or_default ::
  "'p processor \<Rightarrow> real \<Rightarrow> 'p actor \<Rightarrow> pyval \<Rightarrow> exc + BookKeepingData option" where
  "bookkeeping_data_or_default P now self output =
     (case get_bookkeeping_data P self of
        Inl e \<Rightarrow> Inl e
      | Inr None \<Rightarrow> map_sum (\<lambda>e. e) Some (default_bookkeeping_data P now self output)
      | Inr (Some b) \<Rightarrow> Inr (Some b))"

text \<open>
  The last statements: \<open>self._output_stream.bookkeep(bookkeeping_data)\<close>, and
  \<open>self.on_stop()\<close> in tool mode.
\<close>

definition emit :: "'p processor \<Rightarrow> BookKeepingData option \<Rightarrow> 'p actor \<Rightarrow> 'p run" where
  "emit P bookkeeping_data self =
     (case stream_bookkeep P bookkeeping_data of
        Some e \<Rightarrow> (Some (OfException e), self, [Bookkeep bookkeeping_data])
      | None \<Rightarrow>
          if self_is_tool self then
            (case on_stop P self of
               Some e \<Rightarrow> (Some (OfException e), self, [Bookkeep bookkeeping_data, OnStop])
             | None \<Rightarrow> (None, self, [Bookkeep bookkeeping_data, OnStop]))
          else (None, self, [Bookkeep bookkeeping_data]))"

text \<open>
  The statements after the \<open>try\<close>: the bookkeeping record, and when it is true
  (\<open>if bookkeeping_data\<close>) the usage data and the session save; then the last
  statements. None of these calls is inside a \<open>try\<close>: what one of them raises leaves
  \<open>input\<close>.
\<close>

definition bookkeeping :: "'p processor \<Rightarrow> real \<Rightarrow> 'p actor \<Rightarrow> pyval \<Rightarrow> 'p run" where
  "bookkeeping P now self output =
     (case bookkeeping_data_or_default P now self output of
        Inl e \<Rightarrow> (Some (OfException e), self, [])
      | Inr None \<Rightarrow> emit P None self
      | Inr (Some b) \<Rightarrow>
          (case usage_data P self of
             Inl e \<Rightarrow> (Some (OfException e), self, [])
           | Inr usage \<Rightarrow>
               (let b1 = b\<lparr>bk_usage_data := usage\<rparr>;
                    save = Save (self_session_id self) (self_id self) (bk_session_data b1)
                in case save_app_session_data P (self_session_id self) (self_id self)
                          (bk_session_data b1) of
                     Some e \<Rightarrow> (Some (OfException e), self, [save])
                   | None \<Rightarrow> and_then (None, self, [save]) (emit P (Some b1)))))"

text \<open>
  \<open>input(message)\<close>: the \<open>try\<close> block; for an \<open>Exception\<close> the \<open>except\<close> clause (the
  error output and the stream's \<open>error\<close>, whose own exception leaves \<open>input\<close>); then
  the bookkeeping. What is raised in the \<open>try\<close> and is no \<open>Exception\<close> leaves \<open>input\<close>
  at once.
\<close>

definition input :: "'p processor \<Rightarrow> real \<Rightarrow> 'p actor \<Rightarrow> pyval \<Rightarrow> 'p run" where
  "input P now self message =
     (case try_block P self message of
        (Inr output, self1, ev) \<Rightarrow>
          and_then (None, self1, ev) (\<lambda>s. bookkeeping P now s output)
      | (Inl (OfException e), self1, ev) \<Rightarrow>
          (case stream_error P e of
             Some x \<Rightarrow> (Some (OfException x), self1, ev @ [Error e])
           | None \<Rightarrow>
               and_then (None, self1, ev @ [Error e])
                 (\<lambda>s. bookkeeping P now s (error_output e)))
      | (Inl (Other c), self1, ev) \<Rightarrow> (Some (Other c), self1, ev))"


text \<open>
  \<open>validate_and_process\<close>: the validation hook, the call
  \<open>result = self.process(processed_input)\<close>, and the check of the result: a dictionary
  is returned as it is, an instance of \<open>ApiProcessorSchema\<close> dumped, and for anything
  else the method raises. No statement of the class calls the method.
\<close>

definition validate_and_process :: "'p processor \<Rightarrow> 'p actor \<Rightarrow> exc + pyval" where
  "validate_and_process P self =
     (case validate P self of
        Some e \<Rightarrow> Inl e
      | None \<Rightarrow>
          (case process_with_argument P self of
             Inl e \<Rightarrow> Inl e
           | Inr result \<Rightarrow>
               if isinstance_dict result then Inr result
               else if isinstance_ApiProcessorSchema result then Inr (model_dump result)
               else Inl (Exception ''Invalid result type'')))"
subsection \<open>Uploading an asset\<close>









subsection \<open>Reading the calls of a run\<close>

fun is_Hydrate :: "event \<Rightarrow> bool" where
  "is_Hydrate (Hydrate t m) = True"
| "is_Hydrate ev = False"

fun is_Construct :: "event \<Rightarrow> bool" where
  "is_Construct (Construct k) = True"
| "is_Construct ev = False"

fun is_Execute :: "event \<Rightarrow> bool" where
  "is_Execute (Execute i c) = True"
| "is_Execute ev = False"

fun is_Write :: "event \<Rightarrow> bool" where
  "is_Write (Write v) = True"
| "is_Write ev = False"

fun is_Error :: "event \<Rightarrow> bool" where
  "is_Error (Error e) = True"
| "is_Error ev = False"

fun is_Save :: "event \<Rightarrow> bool" where
  "is_Save (Save s i m) = True"
| "is_Save ev = False"

fun is_Bookkeep :: "event \<Rightarrow> bool" where
  "is_Bookkeep (Bookkeep b) = True"
| "is_Bookkeep ev = False"

subsection \<open>Relations between the states of a run\<close>


text \<open>Calls of the hydrator and of the input class only.\<close>

definition quiet :: "event list \<Rightarrow> bool" where
  "quiet evs = list_all (\<lambda>ev. is_Hydrate ev \<or> is_Construct ev) evs"


subsection \<open>A concrete processor\<close>

text \<open>
  A processor for the concrete runs below. Its input class is that of the browser
  processor, its configuration class has no fields, the hydrator finds no placeholder
  and returns the template, the class \<open>BookKeepingData\<close> accepts what it is given, the
  calls on the output stream and \<open>on_stop\<close> return, and the hooks are the ones
  \<open>ApiProcessorInterface\<close> declares, \<open>usage_data\<close> with no metrics. \<open>process\<close> takes
  no argument. What it does, and what \<open>get_bookkeeping_data\<close> and the session save do,
  is given.
\<close>

definition no_fields_class :: "pyval \<Rightarrow> exc + pyval" where
  "no_fields_class kwargs =
     (case kwargs of
        PDict kvs \<Rightarrow> Inr (PSchema [])
      | _ \<Rightarrow> Inl not_a_mapping)"

definition a_processor ::
  "(unit actor \<Rightarrow> pyval list \<times> (base_exception + pyval) \<times> unit actor)
     \<Rightarrow> (unit actor \<Rightarrow> exc + BookKeepingData option)
     \<Rightarrow> (string \<Rightarrow> string \<Rightarrow> pyval \<Rightarrow> exc option) \<Rightarrow> unit processor" where
  "a_processor proc bk save =
     \<lparr> get_input_class = StaticWebBrowserInput,
       get_configuration_class = no_fields_class,
       hydrate_input = (\<lambda>template message. Inr template),
       process = proc,
       get_bookkeeping_data = bk,
       session_data_to_persist = (\<lambda>self. Inr (PDict [])),
       usage_data =
         (\<lambda>self. Inr (PDict [(''credits'', PInt 1000), (''usage_metrics'', PList [])])),
       disable_history = (\<lambda>self. Inr False),
       process_session_data = (\<lambda>state session_data. Inr state),
       validate_BookKeepingData = (\<lambda>b. None),
       get_app_session_data = (\<lambda>session_id actor_id. Inr PNone),
       save_app_session_data = save,
       stream_error = (\<lambda>e. None),
       stream_bookkeep = (\<lambda>b. None),
       on_stop = (\<lambda>self. None),
       validate = (\<lambda>self. None),
       process_with_argument =
         (\<lambda>self. Inl (Exception ''process() takes 1 positional argument but 2 were given'')) \<rparr>"

text \<open>Constructor arguments, and the actor that \<open>__init__\<close> builds from them.\<close>

definition some_args :: "bool \<Rightarrow> bool \<Rightarrow> unit init_args" where
  "some_args is_tool session_enabled =
     \<lparr> arg_input = PDict [(''url'', PStr ''https://example.com''), (''instructions'', PList [])],
       arg_config = PDict [],
       arg_session_id = ''s1'',
       arg_request_user = None,
       arg_app_uuid = None,
       arg_input_fields = [],
       arg_id = ''a1'',
       arg_is_tool = is_tool,
       arg_session_enabled = session_enabled,
       arg_state = () \<rparr>"

definition an_actor :: "bool \<Rightarrow> bool \<Rightarrow> unit actor" where
  "an_actor is_tool session_enabled =
     \<lparr> self_config = 0,
       self_input = 1,
       self_config_template = 2,
       self_input_template = 3,
       self_session_id = ''s1'',
       self_request_user = None,
       self_app_uuid = None,
       self_input_fields = [],
       self_is_tool = is_tool,
       self_session_enabled = session_enabled,
       self_id = ''a1'',
       self_state = (),
       objects = (\<lambda>r. PNone)
         (0 := PSchema [],
          1 := PSchema [(''url'', PStr ''https://example.com''), (''instructions'', PList [])],
          2 := PSchema [],
          3 := PSchema [(''url'', PStr ''https://example.com''), (''instructions'', PList [])]),
       next_free = 4 \<rparr>"

text \<open>
  Behaviours of \<open>process\<close>: it returns a value, raises an \<open>Exception\<close>, is interrupted
  from the keyboard, or sets the \<open>url\<close> of its resolved input (an assignment to a field
  of the object \<open>self._input\<close>) and returns.
\<close>

definition returns ::
  "pyval \<Rightarrow> unit actor \<Rightarrow> pyval list \<times> (base_exception + pyval) \<times> unit actor" where
  "returns v self = ([], Inr v, self)"

definition raises ::
  "string \<Rightarrow> unit actor \<Rightarrow> pyval list \<times> (base_exception + pyval) \<times> unit actor" where
  "raises m self = ([], Inl (OfException (Exception m)), self)"

definition interrupted ::
  "unit actor \<Rightarrow> pyval list \<times> (base_exception + pyval) \<times> unit actor" where
  "interrupted self = ([], Inl (Other ''KeyboardInterrupt''), self)"

fun set_field :: "string \<Rightarrow> pyval \<Rightarrow> pyval \<Rightarrow> pyval" where
  "set_field k v (PSchema fs) = PSchema (map (\<lambda>(k', v'). if k' = k then (k', v) else (k', v')) fs)"
| "set_field k v (PModel fs) = PModel (map (\<lambda>(k', v'). if k' = k then (k', v) else (k', v')) fs)"
| "set_field k v x = x"

definition sets_url ::
  "string \<Rightarrow> unit actor \<Rightarrow> pyval list \<times> (base_exception + pyval) \<times> unit actor" where
  "sets_url u self =
     ([], Inr (PDict [(''text'', PStr ''ok'')]),
      self\<lparr>objects := (objects self)
             (self_input self := set_field ''url'' (PStr u) (objects self (self_input self)))\<rparr>)"

text \<open>Behaviours of the session save and of \<open>get_bookkeeping_data\<close>.\<close>

definition save_ok :: "string \<Rightarrow> string \<Rightarrow> pyval \<Rightarrow> exc option" where
  "save_ok session_id actor_id m = None"

definition save_fails :: "string \<Rightarrow> string \<Rightarrow> pyval \<Rightarrow> exc option" where
  "save_fails session_id actor_id m = Some (Exception ''session store unavailable'')"

definition no_record :: "unit actor \<Rightarrow> exc + BookKeepingData option" where
  "no_record self = Inr None"

definition record_fails :: "unit actor \<Rightarrow> exc + BookKeepingData option" where
  "record_fails self = Inl (Exception ''record unavailable'')"

definition own_record :: "unit actor \<Rightarrow> exc + BookKeepingData option" where
  "own_record self =
     Inr (Some \<lparr> bk_input = PDict [],
                 bk_config = PDict [],
                 bk_output = PDict [(''text'', PStr ''partial'')],
                 bk_session_data = PDict [(''visits'', PInt 3)],
                 bk_timestamp = 0,
                 bk_disable_history = True,
                 bk_usage_data = PDict [] \<rparr>)"



section \<open>Properties\<close>

subsection \<open>The parts of an invocation\<close>

lemmas assign_defs = assign_config_hydrated_def assign_input_constructed_def
  assign_input_hydrated_constructed_def assign_input_normal_def assign_config_normal_def

lemmas example_defs = a_processor_def an_actor_def some_args_def returns_def raises_def
  interrupted_def sets_url_def save_ok_def save_fails_def no_record_def record_fails_def
  own_record_def no_fields_class_def StaticWebBrowserInput_def BrowserInstruction_of_def
  not_a_mapping_def validation_error_def

lemmas run_defs = input_def try_block_def resolve_def and_then_def bookkeeping_def emit_def
  bookkeeping_data_or_default_def default_bookkeeping_data_def dump_if_model_def
  error_output_def assign_defs new_object_def raised_def actor_after_def calls_def Let_def

lemmas type_field_defs = BrowserInstruction_type_field_def BrowserInstructionType_of_value_def
  BrowserInstructionType_members_def validate_type_def lower_def lower_char_def
  upper_char_def ascii_uppercase_def ascii_lowercase_def











lemma quiet_append: "quiet (xs @ ys) = (quiet xs \<and> quiet ys)"
  by (simp add: quiet_def)

lemma and_then_quiet:
  assumes "quiet (snd (snd r))" and "\<And>s. quiet (snd (snd (f s)))"
  shows "quiet (snd (snd (and_then r f)))"
proof (cases r)
  case (fields x s ev)
  show ?thesis
  proof (cases x)
    case None
    obtain y s' ev' where f: "f s = (y, s', ev')" by (cases "f s")
    have "quiet ev'" using assms(2) [of s] by (simp add: f)
    with assms(1) show ?thesis by (simp add: and_then_def fields None f quiet_append)
  next
    case (Some e)
    with assms(1) show ?thesis by (simp add: and_then_def fields)
  qed
qed

lemma assign_quiet:
  "quiet (snd (snd (assign_config_hydrated P m s)))"
  "quiet (snd (snd (assign_input_constructed P k s)))"
  "quiet (snd (snd (assign_input_normal P m s)))"
  by (simp_all add: assign_config_hydrated_def assign_input_constructed_def
      assign_input_normal_def quiet_def Let_def split: sum.splits)

lemma assign_config_normal_quiet: "quiet (snd (snd (assign_config_normal P m s)))"
  by (simp add: assign_config_normal_def assign_quiet) (simp add: quiet_def)

lemma assign_input_hydrated_constructed_quiet:
  "quiet (snd (snd (assign_input_hydrated_constructed P m s)))"
proof (cases "hydrate_input P (objects s (self_input_template s)) m")
  case (Inl e)
  then show ?thesis
    by (simp add: assign_input_hydrated_constructed_def Let_def quiet_def)
next
  case (Inr h)
  have "quiet (snd (snd (None, s, [Hydrate (objects s (self_input_template s)) m])))"
    by (simp add: quiet_def)
  then show ?thesis
    using Inr
    by (simp add: assign_input_hydrated_constructed_def Let_def
        and_then_quiet [OF _ assign_quiet(2)])
qed

lemma resolve_quiet: "quiet (snd (snd (resolve P self m)))"
  by (simp add: resolve_def
      and_then_quiet [OF assign_quiet(2) assign_quiet(1)]
      and_then_quiet [OF assign_input_hydrated_constructed_quiet assign_quiet(1)]
      and_then_quiet [OF assign_quiet(3) assign_config_normal_quiet])

lemma quiet_filter:
  assumes "quiet evs"
  shows "filter is_Error evs = []" and "filter is_Save evs = []"
    and "filter is_Bookkeep evs = []" and "filter is_Execute evs = []"
    and "filter is_Write evs = []"
proof -
  have none: "\<And>p. (\<And>x. is_Hydrate x \<or> is_Construct x \<Longrightarrow> \<not> p x) \<Longrightarrow> filter p evs = []"
    using assms by (induction evs) (auto simp add: quiet_def)
  show "filter is_Error evs = []" by (rule none) (case_tac x, auto)
  show "filter is_Save evs = []" by (rule none) (case_tac x, auto)
  show "filter is_Bookkeep evs = []" by (rule none) (case_tac x, auto)
  show "filter is_Execute evs = []" by (rule none) (case_tac x, auto)
  show "filter is_Write evs = []" by (rule none) (case_tac x, auto)
qed

lemma filter_Write:
  "filter is_Error (map Write ws) = []" "filter is_Save (map Write ws) = []"
  "filter is_Bookkeep (map Write ws) = []" "filter is_Execute (map Write ws) = []"
  "filter is_Hydrate (map Write ws) = []" "filter is_Write (map Write ws) = map Write ws"
  by (induction ws) auto

lemma try_block_resolved:
  assumes "resolve P self m = (None, s, ev)"
  shows "try_block P self m =
           (fst (snd (process P s)), snd (snd (process P s)),
            ev @ Execute (objects s (self_input s)) (objects s (self_config s))
               # map Write (fst (process P s)))"
  using assms by (simp add: try_block_def split: prod.splits)

lemma try_block_unresolved:
  assumes "resolve P self m = (Some x, s, ev)"
  shows "try_block P self m = (Inl x, s, ev)"
  using assms by (simp add: try_block_def)

lemma try_block_no_signal:
  "filter is_Error (snd (snd (try_block P self m))) = []
   \<and> filter is_Save (snd (snd (try_block P self m))) = []
   \<and> filter is_Bookkeep (snd (snd (try_block P self m))) = []"
proof -
  obtain x s ev where r: "resolve P self m = (x, s, ev)" by (cases "resolve P self m")
  have q: "quiet ev" using resolve_quiet [of P self m] by (simp add: r)
  show ?thesis
  proof (cases x)
    case None
    with r have "resolve P self m = (None, s, ev)" by simp
    then show ?thesis
      by (simp add: try_block_resolved quiet_filter [OF q] filter_Write)
  next
    case (Some e)
    with r have "resolve P self m = (Some e, s, ev)" by simp
    then show ?thesis
      by (simp add: try_block_unresolved quiet_filter [OF q])
  qed
qed

lemma emit_actor: "fst (snd (emit P bd s)) = s"
  by (simp add: emit_def split: option.splits)

lemma emit_calls:
  "snd (snd (emit P bd s)) =
     Bookkeep bd # (if stream_bookkeep P bd = None \<and> self_is_tool s then [OnStop] else [])"
  by (simp add: emit_def split: option.splits)

lemma and_then_emit:
  "and_then (None, s, ev) (emit P bd) =
     (fst (emit P bd s), s, ev @ snd (snd (emit P bd s)))"
proof (cases "emit P bd s")
  case (fields x s' ev')
  with emit_actor [of P bd s] show ?thesis by (simp add: and_then_def)
qed

lemma bookkeeping_actor: "fst (snd (bookkeeping P now s out)) = s"
  by (simp add: bookkeeping_def and_then_emit emit_actor Let_def
      split: option.splits sum.splits)

lemma input_unfold:
  "input P now self m =
     (let t = try_block P self m
      in case fst t of
           Inl (Other c) \<Rightarrow> (Some (Other c), fst (snd t), snd (snd t))
         | Inl (OfException e) \<Rightarrow>
             (case stream_error P e of
                Some x \<Rightarrow> (Some (OfException x), fst (snd t), snd (snd t) @ [Error e])
              | None \<Rightarrow>
                  (let k = bookkeeping P now (fst (snd t)) (error_output e)
                   in (fst k, fst (snd k), snd (snd t) @ Error e # snd (snd k))))
         | Inr v \<Rightarrow>
             (let k = bookkeeping P now (fst (snd t)) v
              in (fst k, fst (snd k), snd (snd t) @ snd (snd k))))"
  by (simp add: input_def and_then_def Let_def
      split: prod.splits sum.splits base_exception.splits option.splits)

lemma input_actor: "actor_after (input P now self m) = fst (snd (try_block P self m))"
  by (simp add: input_unfold Let_def actor_after_def bookkeeping_actor
      split: sum.splits base_exception.splits option.splits)
subsection \<open>The bookkeeping of an invocation\<close>

lemma bookkeeping_data_or_default_cases:
  "bookkeeping_data_or_default P now s out =
     (case get_bookkeeping_data P s of
        Inl e \<Rightarrow> Inl e
      | Inr (Some b) \<Rightarrow> Inr (Some b)
      | Inr None \<Rightarrow>
          (case default_bookkeeping_data P now s out of
             Inl e \<Rightarrow> Inl e
           | Inr b \<Rightarrow> Inr (Some b)))"
  by (simp add: bookkeeping_data_or_default_def split: sum.splits option.splits)

lemma record_not_none: "bookkeeping_data_or_default P now s out \<noteq> Inr None"
  by (simp add: bookkeeping_data_or_default_cases split: sum.splits option.splits)

text \<open>The ways through the statements after the \<open>try\<close>.\<close>

lemma bookkeeping_cases:
  obtains
    (no_record) e where "bookkeeping_data_or_default P now s out = Inl e"
      and "bookkeeping P now s out = (Some (OfException e), s, [])"
  | (no_usage) b e where "bookkeeping_data_or_default P now s out = Inr (Some b)"
      and "usage_data P s = Inl e"
      and "bookkeeping P now s out = (Some (OfException e), s, [])"
  | (no_save) b u e where "bookkeeping_data_or_default P now s out = Inr (Some b)"
      and "usage_data P s = Inr u"
      and "save_app_session_data P (self_session_id s) (self_id s) (bk_session_data b) = Some e"
      and "bookkeeping P now s out =
             (Some (OfException e), s,
              [Save (self_session_id s) (self_id s) (bk_session_data b)])"
  | (bookkept) b u where "bookkeeping_data_or_default P now s out = Inr (Some b)"
      and "usage_data P s = Inr u"
      and "save_app_session_data P (self_session_id s) (self_id s) (bk_session_data b) = None"
      and "bookkeeping P now s out =
             (fst (emit P (Some (b\<lparr>bk_usage_data := u\<rparr>)) s), s,
              Save (self_session_id s) (self_id s) (bk_session_data b)
              # snd (snd (emit P (Some (b\<lparr>bk_usage_data := u\<rparr>)) s)))"
proof (cases "bookkeeping_data_or_default P now s out")
  case (Inl e)
  then show ?thesis using no_record by (simp add: bookkeeping_def)
next
  case (Inr g)
  with record_not_none [of P now s out] obtain b where b: "g = Some b" by (cases g) auto
  show ?thesis
  proof (cases "usage_data P s")
    case (Inl e)
    then show ?thesis using no_usage Inr b by (simp add: bookkeeping_def)
  next
    case u: (Inr u)
    show ?thesis
    proof (cases "save_app_session_data P (self_session_id s) (self_id s) (bk_session_data b)")
      case None
      then show ?thesis
        using bookkept Inr b u by (simp add: bookkeeping_def and_then_emit Let_def)
    next
      case (Some e)
      then show ?thesis using no_save Inr b u by (simp add: bookkeeping_def Let_def)
    qed
  qed
qed


lemma bookkeeping_save_count:
  "length (filter is_Save (snd (snd (bookkeeping P now s out)))) \<le> 1
   \<and> (fst (bookkeeping P now s out) = None \<longrightarrow>
        length (filter is_Save (snd (snd (bookkeeping P now s out)))) = 1)"
  by (rule bookkeeping_cases [of P now s out]) (simp_all add: emit_calls)

text \<open>The ways through \<open>input\<close>, by what the \<open>try\<close> block gives.\<close>

lemma input_cases:
  obtains
    (returned) v where "fst (try_block P self m) = Inr v"
      and "input P now self m =
             (fst (bookkeeping P now (fst (snd (try_block P self m))) v),
              fst (snd (try_block P self m)),
              snd (snd (try_block P self m))
              @ snd (snd (bookkeeping P now (fst (snd (try_block P self m))) v)))"
  | (failed) e where "fst (try_block P self m) = Inl (OfException e)"
      and "stream_error P e = None"
      and "input P now self m =
             (fst (bookkeeping P now (fst (snd (try_block P self m))) (error_output e)),
              fst (snd (try_block P self m)),
              snd (snd (try_block P self m)) @ Error e
              # snd (snd (bookkeeping P now (fst (snd (try_block P self m)))
                           (error_output e))))"
  | (unsignalled) e x where "fst (try_block P self m) = Inl (OfException e)"
      and "stream_error P e = Some x"
      and "input P now self m =
             (Some (OfException x), fst (snd (try_block P self m)),
              snd (snd (try_block P self m)) @ [Error e])"
  | (passed) c where "fst (try_block P self m) = Inl (Other c)"
      and "input P now self m =
             (Some (Other c), fst (snd (try_block P self m)), snd (snd (try_block P self m)))"
proof (cases "fst (try_block P self m)")
  case (Inr v)
  then show ?thesis using returned by (simp add: input_unfold Let_def bookkeeping_actor)
next
  case (Inl x)
  show ?thesis
  proof (cases x)
    case (OfException e)
    show ?thesis
    proof (cases "stream_error P e")
      case None
      then show ?thesis
        using failed Inl OfException by (simp add: input_unfold Let_def bookkeeping_actor)
    next
      case (Some y)
      then show ?thesis
        using unsignalled Inl OfException by (simp add: input_unfold Let_def)
    qed
  next
    case (Other c)
    then show ?thesis using passed Inl by (simp add: input_unfold Let_def)
  qed
qed








subsection \<open>The failure path\<close>






subsection \<open>The session save\<close>

lemma default_session_data:
  "default_bookkeeping_data P now s out = Inr b \<Longrightarrow>
   (if self_session_enabled s then session_data_to_persist P s = Inr (bk_session_data b)
    else bk_session_data b = PDict [])"
  by (auto simp add: default_bookkeeping_data_def Let_def split: sum.splits option.splits if_splits)

lemma record_session_data:
  assumes "bookkeeping_data_or_default P now s out = Inr (Some b)"
  shows "case get_bookkeeping_data P s of
           Inl e \<Rightarrow> False
         | Inr (Some b') \<Rightarrow> bk_session_data b = bk_session_data b'
         | Inr None \<Rightarrow>
             (if self_session_enabled s
              then session_data_to_persist P s = Inr (bk_session_data b)
              else bk_session_data b = PDict [])"
proof (cases "get_bookkeeping_data P s")
  case (Inl e)
  with assms show ?thesis by (simp add: bookkeeping_data_or_default_cases)
next
  case (Inr g)
  show ?thesis
  proof (cases g)
    case None
    with Inr assms have "default_bookkeeping_data P now s out = Inr b"
      by (simp add: bookkeeping_data_or_default_cases split: sum.splits)
    from default_session_data [OF this] show ?thesis
      by (simp add: Inr None)
  next
    case (Some b')
    with Inr assms show ?thesis by (simp add: bookkeeping_data_or_default_cases)
  qed
qed

lemma bookkeeping_saved:
  assumes "Save sid aid m \<in> set (snd (snd (bookkeeping P now s out)))"
  shows "sid = self_session_id s \<and> aid = self_id s
         \<and> (\<exists>b. bookkeeping_data_or_default P now s out = Inr (Some b) \<and> m = bk_session_data b)"
  using assms
  by (rule_tac bookkeeping_cases [of P now s out]) (auto simp add: emit_calls split: if_splits)

lemma try_block_no_save: "Save sid aid m \<notin> set (snd (snd (try_block P self msg)))"
proof
  assume "Save sid aid m \<in> set (snd (snd (try_block P self msg)))"
  then have "Save sid aid m \<in> set (filter is_Save (snd (snd (try_block P self msg))))"
    by simp
  then show False by (simp add: try_block_no_signal)
qed

lemma input_saved:
  assumes "Save sid aid m \<in> set (calls (input P now self msg))"
  shows "\<exists>out. Save sid aid m
           \<in> set (snd (snd (bookkeeping P now (fst (snd (try_block P self msg))) out)))"
  using assms try_block_no_save [of sid aid m P self msg]
  by (rule_tac input_cases [of P self msg now]) (auto simp add: calls_def)

lemma input_save_count:
  "length (filter is_Save (calls (input P now self msg))) \<le> 1
   \<and> (raised (input P now self msg) = None \<longrightarrow>
        length (filter is_Save (calls (input P now self msg))) = 1)"
proof (rule input_cases [of P self msg now])
  fix v
  assume "input P now self msg =
            (fst (bookkeeping P now (fst (snd (try_block P self msg))) v),
             fst (snd (try_block P self msg)),
             snd (snd (try_block P self msg))
             @ snd (snd (bookkeeping P now (fst (snd (try_block P self msg))) v)))"
  then show ?thesis
    using bookkeeping_save_count [of P now "fst (snd (try_block P self msg))" v]
    by (simp add: calls_def raised_def try_block_no_signal)
next
  fix e
  assume "input P now self msg =
            (fst (bookkeeping P now (fst (snd (try_block P self msg))) (error_output e)),
             fst (snd (try_block P self msg)),
             snd (snd (try_block P self msg)) @ Error e
             # snd (snd (bookkeeping P now (fst (snd (try_block P self msg)))
                          (error_output e))))"
  then show ?thesis
    using bookkeeping_save_count
      [of P now "fst (snd (try_block P self msg))" "error_output e"]
    by (simp add: calls_def raised_def try_block_no_signal)
next
  fix e x
  assume "input P now self msg =
            (Some (OfException x), fst (snd (try_block P self msg)),
             snd (snd (try_block P self msg)) @ [Error e])"
  then show ?thesis
    by (simp add: calls_def raised_def try_block_no_signal)
next
  fix c
  assume "input P now self msg =
            (Some (Other c), fst (snd (try_block P self msg)),
             snd (snd (try_block P self msg)))"
  then show ?thesis
    by (simp add: calls_def raised_def try_block_no_signal)
qed

text \<open>
  Claim C3, amended. For every call of \<open>input(message)\<close>, the session save is invoked at
  most once, and it is invoked whether or not the actor is session-enabled: once in
  every call that returns normally. The mapping it persists is the session data of the
  bookkeeping record: for the default record, the dictionary that
  \<open>session_data_to_persist()\<close> returns at the time of the call when the actor is
  session-enabled and \<open>{}\<close> when it is not; for a record that
  \<open>get_bookkeeping_data()\<close> supplies, that record's session data.
\<close>

theorem save_at_most_once_with_record_session_data:
  "length (filter is_Save (calls (input P now self message))) \<le> 1
   \<and> (raised (input P now self message) = None \<longrightarrow>
        length (filter is_Save (calls (input P now self message))) = 1)
   \<and> (\<forall>sid aid m. Save sid aid m \<in> set (calls (input P now self message)) \<longrightarrow>
         sid = self_session_id (actor_after (input P now self message))
         \<and> aid = self_id (actor_after (input P now self message))
         \<and> (case get_bookkeeping_data P (actor_after (input P now self message)) of
              Inl e \<Rightarrow> False
            | Inr (Some b) \<Rightarrow> m = bk_session_data b
            | Inr None \<Rightarrow>
                (if self_session_enabled (actor_after (input P now self message))
                 then session_data_to_persist P (actor_after (input P now self message)) = Inr m
                 else m = PDict [])))"
proof (intro conjI allI impI)
  show "length (filter is_Save (calls (input P now self message))) \<le> 1"
    using input_save_count [of P now self message] by simp
next
  assume "raised (input P now self message) = None"
  then show "length (filter is_Save (calls (input P now self message))) = 1"
    using input_save_count [of P now self message] by simp
next
  fix sid aid m
  let ?s = "fst (snd (try_block P self message))"
  assume "Save sid aid m \<in> set (calls (input P now self message))"
  then obtain out where
    "Save sid aid m \<in> set (snd (snd (bookkeeping P now ?s out)))"
    using input_saved by blast
  from bookkeeping_saved [OF this] obtain b where
    ids: "sid = self_session_id ?s" "aid = self_id ?s"
    and b: "bookkeeping_data_or_default P now ?s out = Inr (Some b)"
    and m: "m = bk_session_data b"
    by blast
  show "sid = self_session_id (actor_after (input P now self message))"
    by (simp add: input_actor ids)
  show "aid = self_id (actor_after (input P now self message))"
    by (simp add: input_actor ids)
  show "case get_bookkeeping_data P (actor_after (input P now self message)) of
          Inl e \<Rightarrow> False
        | Inr (Some b) \<Rightarrow> m = bk_session_data b
        | Inr None \<Rightarrow>
            (if self_session_enabled (actor_after (input P now self message))
             then session_data_to_persist P (actor_after (input P now self message)) = Inr m
             else m = PDict [])"
    using record_session_data [OF b]
    by (simp add: input_actor m split: sum.splits option.splits)
qed

theorem save_at_most_once_with_record_session_data_witness:
  "length (filter is_Save
     (calls (input (a_processor (returns (PDict [(''text'', PStr ''ok'')])) no_record save_ok) 0
               (an_actor False False) PNone))) = 1"
  using save_at_most_once_with_record_session_data
    [of "a_processor (returns (PDict [(''text'', PStr ''ok'')])) no_record save_ok" 0
        "an_actor False False" PNone]
  by (simp add: run_defs example_defs)

text \<open>
  The claim as stated fails for an actor that is not session-enabled: the save is
  invoked all the same, with the empty dictionary. It fails too for a processor that
  supplies its own bookkeeping record: what is saved is that record's session data, here
  \<open>{visits: 3}\<close>, while \<open>session_data_to_persist()\<close> returns \<open>{}\<close>.
\<close>

theorem save_counterexample:
  "self_session_enabled (an_actor False False) = False
   \<and> filter is_Save
       (calls (input (a_processor (returns (PDict [(''text'', PStr ''ok'')])) no_record save_ok) 0
                 (an_actor False False) PNone)) =
     [Save ''s1'' ''a1'' (PDict [])]
   \<and> session_data_to_persist
       (a_processor (returns (PDict [(''text'', PStr ''ok'')])) own_record save_ok)
       (actor_after
          (input (a_processor (returns (PDict [(''text'', PStr ''ok'')])) own_record save_ok) 0
             (an_actor False True) PNone)) = Inr (PDict [])
   \<and> filter is_Save
       (calls (input (a_processor (returns (PDict [(''text'', PStr ''ok'')])) own_record save_ok) 0
                 (an_actor False True) PNone)) =
     [Save ''s1'' ''a1'' (PDict [(''visits'', PInt 3)])]"
  by (simp add: run_defs example_defs)

subsection \<open>What is resolved and executed\<close>

text \<open>
  Claim C4. The claim is that a value returned by \<open>process()\<close> that is neither a schema
  instance nor a dictionary fails the invocation with an error payload and an error
  signal. In the code \<open>input\<close> calls \<open>process()\<close> directly: a returned string leaves
  the \<open>try\<close> block as its output and no error is signalled. The check that raises
  \<open>Invalid result type\<close> on such a value is in \<open>validate_and_process\<close>, which
  \<open>input\<close> does not call: it raises so for a \<open>process\<close> that takes the argument it is
  called with there and returns the string.
\<close>

theorem unchecked_result_shape:
  "fst (try_block (a_processor (returns (PStr ''done'')) no_record save_ok)
          (an_actor False True) PNone) = Inr (PStr ''done'')
   \<and> filter is_Error
       (calls (input (a_processor (returns (PStr ''done'')) no_record save_ok) 0
                 (an_actor False True) PNone)) = []
   \<and> validate_and_process
       ((a_processor (returns (PStr ''done'')) no_record save_ok)
          \<lparr>process_with_argument := (\<lambda>self. Inr (PStr ''done''))\<rparr>)
       (an_actor False True) = Inl (Exception ''Invalid result type'')"
  by (simp add: run_defs example_defs validate_and_process_def)

lemma bookkeeping_after_execution:
  "filter is_Execute (snd (snd (bookkeeping P now s out))) = []
   \<and> filter is_Hydrate (snd (snd (bookkeeping P now s out))) = []
   \<and> filter is_Write (snd (snd (bookkeeping P now s out))) = []"
  by (rule bookkeeping_cases [of P now s out]) (simp_all add: emit_calls)

lemma input_executions:
  "filter is_Execute (calls (input P now self m)) =
     filter is_Execute (snd (snd (try_block P self m)))
   \<and> filter is_Hydrate (calls (input P now self m)) =
     filter is_Hydrate (snd (snd (try_block P self m)))
   \<and> filter is_Write (calls (input P now self m)) =
     filter is_Write (snd (snd (try_block P self m)))"
  by (rule input_cases [of P self m now])
     (simp_all add: calls_def bookkeeping_after_execution)

text \<open>
  Claim C5. For an actor in normal mode (not a tool), \<open>input(None)\<close> makes the resolved
  input and the resolved config the stored template objects themselves, unchanged, calls
  the hydrator on neither, and runs \<open>process()\<close> once, on the actor in that state: what
  the \<open>try\<close> block gives, the partial outputs written and the actor after the call are
  those of that one run.
\<close>

theorem normal_mode_no_message_uses_templates:
  assumes "\<not> self_is_tool self"
  shows "try_block P self PNone =
           (fst (snd (process P (self\<lparr>self_input := self_input_template self,
                                      self_config := self_config_template self\<rparr>))),
            snd (snd (process P (self\<lparr>self_input := self_input_template self,
                                      self_config := self_config_template self\<rparr>))),
            Execute (objects self (self_input_template self))
                    (objects self (self_config_template self))
            # map Write (fst (process P (self\<lparr>self_input := self_input_template self,
                                              self_config := self_config_template self\<rparr>))))
         \<and> actor_after (input P now self PNone) =
             snd (snd (process P (self\<lparr>self_input := self_input_template self,
                                       self_config := self_config_template self\<rparr>)))
         \<and> filter is_Write (calls (input P now self PNone)) =
             map Write (fst (process P (self\<lparr>self_input := self_input_template self,
                                             self_config := self_config_template self\<rparr>)))
         \<and> filter is_Execute (calls (input P now self PNone)) =
             [Execute (objects self (self_input_template self))
                      (objects self (self_config_template self))]
         \<and> filter is_Hydrate (calls (input P now self PNone)) = []"
proof -
  let ?a = "self\<lparr>self_input := self_input_template self,
                  self_config := self_config_template self\<rparr>"
  have r: "resolve P self PNone = (None, ?a, [])"
    using assms
    by (simp add: resolve_def and_then_def assign_input_normal_def assign_config_normal_def)
  have t: "try_block P self PNone =
             (fst (snd (process P ?a)), snd (snd (process P ?a)),
              Execute (objects self (self_input_template self))
                      (objects self (self_config_template self))
              # map Write (fst (process P ?a)))"
    using try_block_resolved [OF r] by simp
  show ?thesis
    by (simp add: input_executions input_actor t filter_Write)
qed

theorem normal_mode_no_message_uses_templates_witness:
  "fst (try_block (a_processor (returns (PDict [(''text'', PStr ''ok'')])) no_record save_ok)
          (an_actor False True) PNone) = Inr (PDict [(''text'', PStr ''ok'')])
   \<and> filter is_Execute
     (calls (input (a_processor (returns (PDict [(''text'', PStr ''ok'')])) no_record save_ok) 0
               (an_actor False True) PNone)) =
     [Execute (PSchema [(''url'', PStr ''https://example.com''), (''instructions'', PList [])])
        (PSchema [])]
   \<and> filter is_Hydrate
     (calls (input (a_processor (returns (PDict [(''text'', PStr ''ok'')])) no_record save_ok) 0
               (an_actor False True) PNone)) = []"
  using normal_mode_no_message_uses_templates
    [of "an_actor False True"
        "a_processor (returns (PDict [(''text'', PStr ''ok'')])) no_record save_ok" 0]
  by (simp add: an_actor_def a_processor_def returns_def)

text \<open>
  Claim C6, amended. For an actor in tool mode with no declared input fields and a
  message from which the input class builds an instance and against which the config
  template hydrates, \<open>input(message)\<close> makes the resolved input a new object, the
  instance that the input class builds from the message's key-value content, with no
  call of the hydrator on the input; makes the resolved config a new object, the config
  template hydrated from the message; and then runs \<open>process()\<close> once, on the actor in
  that state: what the \<open>try\<close> block gives, the partial outputs written and the actor
  after the call are those of that one run.
\<close>

theorem tool_mode_input_from_message:
  assumes "self_is_tool self" and "self_input_fields self = []"
    and "self_config_template self < next_free self"
    and "get_input_class P message = Inr i"
    and "hydrate_input P (objects self (self_config_template self)) message = Inr c"
    and "a = (new_object c ((new_object i self)\<lparr>self_input := next_free self\<rparr>))
               \<lparr>self_config := Suc (next_free self)\<rparr>"
  shows "objects a (self_input a) = i \<and> objects a (self_config a) = c
         \<and> try_block P self message =
             (fst (snd (process P a)), snd (snd (process P a)),
              [Construct message,
               Hydrate (objects self (self_config_template self)) message,
               Execute i c]
              @ map Write (fst (process P a)))
         \<and> actor_after (input P now self message) = snd (snd (process P a))
         \<and> filter is_Write (calls (input P now self message)) = map Write (fst (process P a))
         \<and> filter is_Execute (calls (input P now self message)) = [Execute i c]
         \<and> filter is_Hydrate (calls (input P now self message)) =
             [Hydrate (objects self (self_config_template self)) message]"
proof -
  have oi: "objects a (self_input a) = i" and oc: "objects a (self_config a) = c"
    by (simp_all add: assms(6) new_object_def)
  have r: "resolve P self message =
             (None, a,
              [Construct message, Hydrate (objects self (self_config_template self)) message])"
    using assms(1,2,3,4,5)
    by (simp add: resolve_def and_then_def assign_input_constructed_def
        assign_config_hydrated_def new_object_def assms(6) Let_def)
  have t: "try_block P self message =
             (fst (snd (process P a)), snd (snd (process P a)),
              [Construct message,
               Hydrate (objects self (self_config_template self)) message,
               Execute i c]
              @ map Write (fst (process P a)))"
    using try_block_resolved [OF r] by (simp add: oi oc)
  show ?thesis
    by (simp add: input_executions input_actor t filter_Write oi oc)
qed

theorem tool_mode_input_from_message_witness:
  "fst (try_block (a_processor (returns (PDict [(''text'', PStr ''ok'')])) no_record save_ok)
          (an_actor True True)
          (PDict [(''url'', PStr ''https://x.test''), (''instructions'', PList [])]))
     = Inr (PDict [(''text'', PStr ''ok'')])
   \<and> filter is_Execute
       (calls (input (a_processor (returns (PDict [(''text'', PStr ''ok'')])) no_record save_ok)
                 0 (an_actor True True)
                 (PDict [(''url'', PStr ''https://x.test''), (''instructions'', PList [])])))
     = [Execute (PSchema [(''url'', PStr ''https://x.test''), (''instructions'', PList [])])
          (PSchema [])]"
  using tool_mode_input_from_message
    [of "an_actor True True"
        "a_processor (returns (PDict [(''text'', PStr ''ok'')])) no_record save_ok"
        "PDict [(''url'', PStr ''https://x.test''), (''instructions'', PList [])]"
        "PSchema [(''url'', PStr ''https://x.test''), (''instructions'', PList [])]"
        "PSchema []"
        "(new_object (PSchema [])
            ((new_object
                (PSchema [(''url'', PStr ''https://x.test''), (''instructions'', PList [])])
                (an_actor True True))\<lparr>self_input := next_free (an_actor True True)\<rparr>))
           \<lparr>self_config := Suc (next_free (an_actor True True))\<rparr>"
        0]
  by (simp add: an_actor_def a_processor_def returns_def StaticWebBrowserInput_def
      new_object_def)

text \<open>
  The claim as stated fails for a message that the input class rejects, here one
  without the required \<open>url\<close>: the exception is raised inside the \<open>try\<close>, before
  \<open>process()\<close>, which is then never called. It fails too for a message that the input
  class completes: from an instruction given by its type alone the class builds one
  with the defaults of \<open>selector\<close> and \<open>data\<close>, and the resolved input, dumped, is no
  longer the message's content.
\<close>

theorem tool_mode_message_counterexample:
  "fst (try_block (a_processor (returns (PDict [(''text'', PStr ''ok'')])) no_record save_ok)
          (an_actor True True) (PDict [(''instructions'', PList [])]))
     = Inl (OfException validation_error)
   \<and> filter is_Execute
       (calls (input (a_processor (returns (PDict [(''text'', PStr ''ok'')])) no_record save_ok)
                 0 (an_actor True True) (PDict [(''instructions'', PList [])]))) = []
   \<and> model_dump
       (objects
          (actor_after
             (input (a_processor (returns (PDict [(''text'', PStr ''ok'')])) no_record save_ok)
                0 (an_actor True True)
                (PDict [(''url'', PStr ''https://x.test''),
                        (''instructions'', PList [PDict [(''type'', PStr ''Click'')]])])))
          (self_input
             (actor_after
                (input (a_processor (returns (PDict [(''text'', PStr ''ok'')])) no_record
                          save_ok)
                   0 (an_actor True True)
                   (PDict [(''url'', PStr ''https://x.test''),
                           (''instructions'', PList [PDict [(''type'', PStr ''Click'')]])])))))
     = PDict [(''url'', PStr ''https://x.test''),
              (''instructions'',
                 PList [PDict [(''type'', PStr ''Click''), (''selector'', PNone),
                               (''data'', PNone)]])]"
  by (simp add: run_defs example_defs type_field_defs)

subsection \<open>The template forms\<close>













subsection \<open>The failure of an upload\<close>



subsection \<open>The browser instructions\<close>

lemma validate_type_canonical: "validate_type v = enum_value v"
  by (cases v) (simp_all add: validate_type_def lower_def lower_char_def upper_char_def
     ascii_uppercase_def ascii_lowercase_def)

lemma BrowserInstruction_type_field_canonical:
  "BrowserInstruction_type_field (enum_value v) = Some (enum_value v)"
  by (cases v) (simp_all add: BrowserInstruction_type_field_def
     BrowserInstructionType_of_value_def BrowserInstructionType_members_def
     validate_type_canonical)

text \<open>
  Claim C8. For an instruction whose type is the value of any of the nine members of
  \<open>BrowserInstructionType\<close>, \<open>_web_browser_instruction_to_command\<close> returns a command
  whose command type is the command of the same name, whose data is the instruction's
  data and whose selector is the instruction's selector, each the empty string when it
  is absent.
\<close>

theorem instruction_to_command_corresponds:
  "command_type (web_browser_instruction_to_command (i\<lparr>instruction_type := enum_value t\<rparr>))
     = CommandType (corresponding_command t)
   \<and> command_data (web_browser_instruction_to_command (i\<lparr>instruction_type := enum_value t\<rparr>))
     = (case instruction_data i of None \<Rightarrow> '''' | Some d \<Rightarrow> d)
   \<and> command_selector (web_browser_instruction_to_command (i\<lparr>instruction_type := enum_value t\<rparr>))
     = (case instruction_selector i of None \<Rightarrow> '''' | Some d \<Rightarrow> d)"
  by (cases t) (simp_all add: web_browser_instruction_to_command_def split: option.splits)

text \<open>
  Claim C10. The claim is that a type string such as \<open>CLICK\<close> or \<open>click\<close>, whose
  lowercased and then capitalized form is an instruction name, validates to that name.
  In the code the strings \<open>CLICK\<close> and \<open>click\<close> do lower and capitalize to \<open>Click\<close>,
  but the validation of the field rejects both: the enumeration is checked before the
  field validator runs, and it has no member with either value.
\<close>

theorem type_field_rejects_other_case:
  "BrowserInstruction_type_field ''CLICK'' = None
   \<and> BrowserInstruction_type_field ''click'' = None
   \<and> capitalize (lower ''CLICK'') = enum_value Ins_CLICK
   \<and> capitalize (lower ''click'') = enum_value Ins_CLICK"
  by (simp add: BrowserInstruction_type_field_def BrowserInstructionType_of_value_def
      BrowserInstructionType_members_def lower_def lower_char_def upper_char_def
      ascii_uppercase_def ascii_lowercase_def)

end
